theory Spec2Isabelle
  imports Main
begin

section \<open>sktime/datatypes/\_dtypekind.py\<close>

subsection \<open>The enumeration DtypeKind\<close>

text \<open>
  \<^verbatim>\<open>class DtypeKind(IntEnum)\<close>: seven members, each bound to an integer code.
  The members are the constructors; \<open>DtypeKind_value\<close> is the \<^verbatim>\<open>.value\<close> of a member,
  which is also what an IntEnum member compares and orders by. The member INT is written
  \<open>INT_kind\<close>: \<open>INT\<close> is reserved input syntax of HOL.
\<close>

datatype DtypeKind = INT_kind | UINT | FLOAT | BOOL | STRING | DATETIME | CATEGORICAL

fun DtypeKind_value :: "DtypeKind \<Rightarrow> int" where
  "DtypeKind_value INT_kind = 0"
| "DtypeKind_value UINT = 1"
| "DtypeKind_value FLOAT = 2"
| "DtypeKind_value BOOL = 20"
| "DtypeKind_value STRING = 21"
| "DtypeKind_value DATETIME = 22"
| "DtypeKind_value CATEGORICAL = 23"

text \<open>
  The class body in definition order, as (name, code) pairs. In a Python enum a name whose
  code was already bound earlier is an alias and adds no member; \<open>enum_members\<close> keeps
  the first binding of each code.
\<close>

definition DtypeKind_body :: "(string \<times> int) list" where
  "DtypeKind_body =
     [(''INT'', 0), (''UINT'', 1), (''FLOAT'', 2), (''BOOL'', 20),
      (''STRING'', 21), (''DATETIME'', 22), (''CATEGORICAL'', 23)]"

fun enum_members :: "(string \<times> int) list \<Rightarrow> int list \<Rightarrow> (string \<times> int) list" where
  "enum_members [] seen = []"
| "enum_members ((name, code) # rest) seen =
     (if code \<in> set seen then enum_members rest seen
      else (name, code) # enum_members rest (code # seen))"

fun DtypeKind_name :: "DtypeKind \<Rightarrow> string" where
  "DtypeKind_name INT_kind = ''INT''"
| "DtypeKind_name UINT = ''UINT''"
| "DtypeKind_name FLOAT = ''FLOAT''"
| "DtypeKind_name BOOL = ''BOOL''"
| "DtypeKind_name STRING = ''STRING''"
| "DtypeKind_name DATETIME = ''DATETIME''"
| "DtypeKind_name CATEGORICAL = ''CATEGORICAL''"

definition all_DtypeKinds :: "DtypeKind list" where
  "all_DtypeKinds = [INT_kind, UINT, FLOAT, BOOL, STRING, DATETIME, CATEGORICAL]"

subsection \<open>List entries and the dtype predicates of pandas\<close>

text \<open>
  The lists this module works on start out holding storage dtypes and end up holding
  DtypeKind members, in the same list object. An entry is one or the other; \<open>'d\<close> is the
  type of storage dtypes.
\<close>

datatype 'd entry = Dtype 'd | Kind DtypeKind

text \<open>
  The predicates imported from \<^verbatim>\<open>pandas.api.types\<close>, and the comparison of an entry with
  a string (\<^verbatim>\<open>dtype == "object"\<close>), are library code. They are a parameter of the model:
  every theorem below that mentions \<open>P\<close> holds for whatever these functions compute.
\<close>

record 'd dtype_api =
  is_float_dtype :: "'d entry \<Rightarrow> bool"
  is_signed_integer_dtype :: "'d entry \<Rightarrow> bool"
  is_unsigned_integer_dtype :: "'d entry \<Rightarrow> bool"
  dtype_eq :: "'d entry \<Rightarrow> string \<Rightarrow> bool"
  is_bool_dtype :: "'d entry \<Rightarrow> bool"
  is_datetime64_any_dtype :: "'d entry \<Rightarrow> bool"
  is_string_dtype :: "'d entry \<Rightarrow> bool"

subsection \<open>\_pandas\_dtype\_to\_kind\<close>

text \<open>
  Python lists are objects: the function writes into the list it was handed. The store maps
  the address of a list object to its current content; \<open>store_item h a i v\<close> is
  \<^verbatim>\<open>a[i] = v\<close>.
\<close>

type_synonym addr = nat
type_synonym 'd heap = "addr \<Rightarrow> 'd entry list"

definition store_item :: "'d heap \<Rightarrow> addr \<Rightarrow> nat \<Rightarrow> 'd entry \<Rightarrow> 'd heap" where
  "store_item h a i v = h(a := (h a)[i := v])"

text \<open>
  \<^verbatim>\<open>for i, dtype in enumerate(col_dtypes)\<close>: the iterator reads position \<open>i\<close> of the list
  as it is at that moment and stops when \<open>i\<close> reaches its length. The body is the
  if/elif chain of the source, in its order; there is no else branch.
\<close>

function pandas_dtype_to_kind_loop ::
  "'d dtype_api \<Rightarrow> addr \<Rightarrow> nat \<Rightarrow> 'd heap \<Rightarrow> 'd heap" where
  "pandas_dtype_to_kind_loop P col_dtypes i h =
     (if i < length (h col_dtypes) then
        (let dtype = h col_dtypes ! i in
         pandas_dtype_to_kind_loop P col_dtypes (Suc i)
           (if is_float_dtype P dtype then store_item h col_dtypes i (Kind FLOAT)
            else if is_signed_integer_dtype P dtype then store_item h col_dtypes i (Kind INT_kind)
            else if is_unsigned_integer_dtype P dtype then store_item h col_dtypes i (Kind UINT)
            else if dtype_eq P dtype ''object'' \<or> dtype_eq P dtype ''category''
              then store_item h col_dtypes i (Kind CATEGORICAL)
            else if is_bool_dtype P dtype then store_item h col_dtypes i (Kind BOOL)
            else if is_datetime64_any_dtype P dtype then store_item h col_dtypes i (Kind DATETIME)
            else if is_string_dtype P dtype then store_item h col_dtypes i (Kind STRING)
            else h))
      else h)"
  by pat_completeness auto
termination
  by (relation "measure (\<lambda>(P, a, i, h). length (h a) - i)") (auto simp: store_item_def)

declare pandas_dtype_to_kind_loop.simps [simp del]

text \<open>The function returns the reference it was given, with the store as the loop left it.\<close>

definition pandas_dtype_to_kind :: "'d dtype_api \<Rightarrow> 'd heap \<Rightarrow> addr \<Rightarrow> addr \<times> 'd heap" where
  "pandas_dtype_to_kind P h col_dtypes = (col_dtypes, pandas_dtype_to_kind_loop P col_dtypes 0 h)"

text \<open>
  Both callers below build a new list and hand it over; nothing else refers to it. For them
  the call is: put the list at an address, run the function, read the returned reference.
\<close>

definition pandas_dtype_to_kind_fresh :: "'d dtype_api \<Rightarrow> 'd entry list \<Rightarrow> 'd entry list" where
  "pandas_dtype_to_kind_fresh P col_dtypes =
     (case pandas_dtype_to_kind P ((\<lambda>_. [])(0 := col_dtypes)) 0 of (r, h) \<Rightarrow> h r)"

subsection \<open>Containers\<close>

text \<open>
  The exceptions that can leave this module.
\<close>

datatype error =
  UnboundLocalError | IndexError | KeyError | AttributeError | TypeError | ValueError

text \<open>
  The Python objects handed in as \<^verbatim>\<open>obj\<close>: a plain scalar (a table cell), a list, a
  numpy array (dtype and shape), a pandas Series (dtype, row labels, values) and a pandas
  DataFrame (row labels, then the columns as name, dtype and values). A row label is the
  tuple of its index levels; a flat index has labels of length one. The row index of a
  frame is not a column.
\<close>

datatype ('d, 'v) pyobj =
    PyScalar 'v
  | PyList "('d, 'v) pyobj list"
  | NdArray 'd "nat list"
  | PdSeries 'd "int list list" "('d, 'v) pyobj list"
  | PdDataFrame "int list list" "(string \<times> 'd \<times> ('d, 'v) pyobj list) list"

text \<open>
  The attribute reads and subscripts the module performs, each with the exception the
  library raises when the object does not support it. Column names are strings and are
  taken to be distinct, as are the labels of a flat row index.
\<close>

fun shape_attr :: "('d, 'v) pyobj \<Rightarrow> error + nat list" where
  "shape_attr (NdArray d s) = Inr s"
| "shape_attr (PdSeries d idx vals) = Inr [length vals]"
| "shape_attr (PdDataFrame idx cols) = Inr [length idx, length cols]"
| "shape_attr (PyList xs) = Inl AttributeError"
| "shape_attr (PyScalar v) = Inl AttributeError"

definition tuple_getitem :: "nat list \<Rightarrow> nat \<Rightarrow> error + nat" where
  "tuple_getitem t i = (if i < length t then Inr (t ! i) else Inl IndexError)"

text \<open>
  \<^verbatim>\<open>obj.dtypes\<close> is a single dtype on a Series and a Series of dtypes on a DataFrame;
  only the latter has \<^verbatim>\<open>to_list()\<close>.
\<close>

datatype 'd dtypes_value = OneDtype 'd | DtypeSeries "'d list"

fun dtypes_attr :: "('d, 'v) pyobj \<Rightarrow> error + 'd dtypes_value" where
  "dtypes_attr (PdSeries d idx vals) = Inr (OneDtype d)"
| "dtypes_attr (PdDataFrame idx cols) = Inr (DtypeSeries (map (\<lambda>(name, d, vals). d) cols))"
| "dtypes_attr (NdArray d s) = Inl AttributeError"
| "dtypes_attr (PyList xs) = Inl AttributeError"
| "dtypes_attr (PyScalar v) = Inl AttributeError"

fun to_list :: "'d dtypes_value \<Rightarrow> error + 'd entry list" where
  "to_list (DtypeSeries ds) = Inr (map Dtype ds)"
| "to_list (OneDtype d) = Inl AttributeError"

fun columns_to_list :: "('d, 'v) pyobj \<Rightarrow> error + string list" where
  "columns_to_list (PdDataFrame idx cols) = Inr (map fst cols)"
| "columns_to_list (PdSeries d idx vals) = Inl AttributeError"
| "columns_to_list (NdArray d s) = Inl AttributeError"
| "columns_to_list (PyList xs) = Inl AttributeError"
| "columns_to_list (PyScalar v) = Inl AttributeError"

text \<open>\<^verbatim>\<open>obj[col]\<close> with a column name.\<close>

fun getitem_col :: "('d, 'v) pyobj \<Rightarrow> string \<Rightarrow> error + ('d, 'v) pyobj" where
  "getitem_col (PdDataFrame idx cols) col =
     (case map_of cols col of
        None \<Rightarrow> Inl KeyError
      | Some (d, vals) \<Rightarrow> Inr (PdSeries d idx vals))"
| "getitem_col (PdSeries d idx vals) col = Inl KeyError"
| "getitem_col (NdArray d s) col = Inl IndexError"
| "getitem_col (PyList xs) col = Inl TypeError"
| "getitem_col (PyScalar v) col = Inl TypeError"

text \<open>
  \<^verbatim>\<open>x[0]\<close>. On a list and on an array it is the first position. On a Series it is the row
  labelled 0: the value itself under a flat index, the sub-series of the rows whose first
  level is 0 under a multi-level index, KeyError when no row has that label. On a
  DataFrame it asks for a column labelled 0, and column names are strings.
\<close>

fun getitem0 :: "('d, 'v) pyobj \<Rightarrow> error + ('d, 'v) pyobj" where
  "getitem0 (PyList xs) = (case xs of [] \<Rightarrow> Inl IndexError | x # rest \<Rightarrow> Inr x)"
| "getitem0 (NdArray d s) =
     (case s of
        [] \<Rightarrow> Inl IndexError
      | n # rest \<Rightarrow> if n = 0 then Inl IndexError else Inr (NdArray d rest))"
| "getitem0 (PdSeries d idx vals) =
     (let hits = filter (\<lambda>(l, v). l \<noteq> [] \<and> hd l = 0) (zip idx vals) in
      case hits of
        [] \<Rightarrow> Inl KeyError
      | (l, v) # rest \<Rightarrow>
          if length l = 1 then Inr v
          else Inr (PdSeries d (map (\<lambda>(l, v). tl l) hits) (map snd hits)))"
| "getitem0 (PdDataFrame idx cols) = Inl KeyError"
| "getitem0 (PyScalar v) = Inl TypeError"

fun dtype_attr :: "('d, 'v) pyobj \<Rightarrow> error + 'd" where
  "dtype_attr (PdSeries d idx vals) = Inr d"
| "dtype_attr (NdArray d s) = Inr d"
| "dtype_attr (PdDataFrame idx cols) = Inl AttributeError"
| "dtype_attr (PyList xs) = Inl AttributeError"
| "dtype_attr (PyScalar v) = Inl AttributeError"

text \<open>
  The representation tag \<^verbatim>\<open>mtype\<close> is compared with \<^verbatim>\<open>==\<close> against class objects in
  \<^verbatim>\<open>_get_series_dtypekind\<close> and against string literals in \<^verbatim>\<open>_get_panel_dtypekind\<close>.
  A class object never equals a string.
\<close>

datatype pytag = PyClass string | PyStr string

definition np_ndarray :: pytag where "np_ndarray = PyClass ''numpy.ndarray''"
definition pd_Series :: pytag where "pd_Series = PyClass ''pandas.Series''"
definition pd_DataFrame :: pytag where "pd_DataFrame = PyClass ''pandas.DataFrame''"

subsection \<open>\_get\_series\_dtypekind\<close>

text \<open>
  The local \<^verbatim>\<open>col_dtypes\<close> is bound only in the Series and DataFrame branches; it is
  \<open>None\<close> here while unbound, and reading it unbound raises UnboundLocalError.
  Under the Series tag a DataFrame yields \<^verbatim>\<open>[obj.dtypes]\<close> with a Series of dtypes as
  its one element, on which \<^verbatim>\<open>dtype == "object" or ...\<close> raises ValueError (the truth
  value of a Series is ambiguous); that call is given its outcome directly.
\<close>

definition get_series_dtypekind ::
  "'d dtype_api \<Rightarrow> ('d, 'v) pyobj \<Rightarrow> pytag \<Rightarrow> error + 'd entry list" where
  "get_series_dtypekind P obj mtype =
     (if mtype = np_ndarray then
        (case shape_attr obj of
           Inl e \<Rightarrow> Inl e
         | Inr shape \<Rightarrow>
             if length shape = 2 then Inr (replicate (shape ! 1) (Kind FLOAT))
             else Inr [Kind FLOAT])
      else
        (case (if mtype = pd_Series then
                 (case dtypes_attr obj of
                    Inl e \<Rightarrow> Inl e
                  | Inr (OneDtype d) \<Rightarrow> Inr (Some [Dtype d])
                  | Inr (DtypeSeries ds) \<Rightarrow> Inl ValueError)
               else if mtype = pd_DataFrame then
                 (case dtypes_attr obj of
                    Inl e \<Rightarrow> Inl e
                  | Inr dtypes \<Rightarrow>
                      (case to_list dtypes of Inl e \<Rightarrow> Inl e | Inr l \<Rightarrow> Inr (Some l)))
               else Inr None) of
           Inl e \<Rightarrow> Inl e
         | Inr None \<Rightarrow> Inl UnboundLocalError
         | Inr (Some col_dtypes) \<Rightarrow> Inr (pandas_dtype_to_kind_fresh P col_dtypes)))"

subsection \<open>\_get\_panel\_dtypekind\<close>

text \<open>A list comprehension whose element expression may raise: the first exception ends it.\<close>

fun map_result :: "('a \<Rightarrow> error + 'b) \<Rightarrow> 'a list \<Rightarrow> error + 'b list" where
  "map_result f [] = Inr []"
| "map_result f (x # xs) =
     (case f x of
        Inl e \<Rightarrow> Inl e
      | Inr y \<Rightarrow> (case map_result f xs of Inl e \<Rightarrow> Inl e | Inr ys \<Rightarrow> Inr (y # ys)))"

text \<open>\<^verbatim>\<open>obj[col][0].dtype\<close>\<close>

definition first_row_dtype :: "('d, 'v) pyobj \<Rightarrow> string \<Rightarrow> error + 'd" where
  "first_row_dtype obj col =
     (case getitem_col obj col of
        Inl e \<Rightarrow> Inl e
      | Inr column \<Rightarrow> (case getitem0 column of Inl e \<Rightarrow> Inl e | Inr cell \<Rightarrow> dtype_attr cell))"

definition get_panel_dtypekind ::
  "'d dtype_api \<Rightarrow> ('d, 'v) pyobj \<Rightarrow> pytag \<Rightarrow> error + 'd entry list" where
  "get_panel_dtypekind P obj mtype =
     (if mtype = PyStr ''numpy3D'' then
        (case shape_attr obj of
           Inl e \<Rightarrow> Inl e
         | Inr shape \<Rightarrow>
             (case tuple_getitem shape 1 of
                Inl e \<Rightarrow> Inl e
              | Inr n \<Rightarrow> Inr (replicate n (Kind FLOAT))))
      else if mtype = PyStr ''numpyflat'' then Inr [Kind FLOAT]
      else if mtype = PyStr ''df-list'' then
        (case getitem0 obj of
           Inl e \<Rightarrow> Inl e
         | Inr first \<Rightarrow> get_series_dtypekind P first pd_DataFrame)
      else
        (case (if mtype = PyStr ''pd-multiindex'' then
                 (case dtypes_attr obj of
                    Inl e \<Rightarrow> Inl e
                  | Inr dtypes \<Rightarrow>
                      (case to_list dtypes of Inl e \<Rightarrow> Inl e | Inr l \<Rightarrow> Inr (Some l)))
               else if mtype = PyStr ''nested_univ'' then
                 (case columns_to_list obj of
                    Inl e \<Rightarrow> Inl e
                  | Inr col_names \<Rightarrow>
                      (case map_result (first_row_dtype obj) col_names of
                         Inl e \<Rightarrow> Inl e
                       | Inr ds \<Rightarrow> Inr (Some (map Dtype ds))))
               else Inr None) of
           Inl e \<Rightarrow> Inl e
         | Inr None \<Rightarrow> Inl UnboundLocalError
         | Inr (Some col_dtypes) \<Rightarrow> Inr (pandas_dtype_to_kind_fresh P col_dtypes)))"

subsection \<open>\_get\_feature\_kind\<close>

text \<open>
  The dict literal, in its order, and a lookup \<^verbatim>\<open>feature_kind_map[kind]\<close> that raises
  KeyError for a key the dict does not hold. The keys are DtypeKind members; an entry that
  is still a storage dtype equals none of them.
\<close>

definition feature_kind_map :: "(DtypeKind \<times> DtypeKind) list" where
  "feature_kind_map =
     [(CATEGORICAL, CATEGORICAL), (STRING, CATEGORICAL), (BOOL, CATEGORICAL),
      (DATETIME, CATEGORICAL), (FLOAT, FLOAT), (INT_kind, FLOAT), (UINT, FLOAT)]"

fun dict_getitem :: "(DtypeKind \<times> DtypeKind) list \<Rightarrow> 'd entry \<Rightarrow> error + DtypeKind" where
  "dict_getitem m (Kind k) = (case map_of m k of None \<Rightarrow> Inl KeyError | Some v \<Rightarrow> Inr v)"
| "dict_getitem m (Dtype d) = Inl KeyError"

text \<open>The loop appends to the new list \<^verbatim>\<open>feature_kind\<close>, which starts empty.\<close>

fun get_feature_kind_loop :: "'d entry list \<Rightarrow> DtypeKind list \<Rightarrow> error + DtypeKind list" where
  "get_feature_kind_loop [] feature_kind = Inr feature_kind"
| "get_feature_kind_loop (kind # rest) feature_kind =
     (case dict_getitem feature_kind_map kind of
        Inl e \<Rightarrow> Inl e
      | Inr v \<Rightarrow> get_feature_kind_loop rest (feature_kind @ [v]))"

definition get_feature_kind :: "'d entry list \<Rightarrow> error + DtypeKind list" where
  "get_feature_kind col_dtypekinds = get_feature_kind_loop col_dtypekinds []"

text \<open>
  The pipeline of the tests in \<^verbatim>\<open>test_feature_kind_inference.py\<close>:
  \<^verbatim>\<open>_get_feature_kind(_get_panel_dtypekind(obj, mtype))\<close>.
\<close>

definition panel_feature_kind ::
  "'d dtype_api \<Rightarrow> ('d, 'v) pyobj \<Rightarrow> pytag \<Rightarrow> error + DtypeKind list" where
  "panel_feature_kind P obj mtype =
     (case get_panel_dtypekind P obj mtype of
        Inl e \<Rightarrow> Inl e
      | Inr dtype_kind \<Rightarrow> get_feature_kind dtype_kind)"

subsection \<open>The classification rule in the words of the specification\<close>

text \<open>
  The specification gives the classification as a precedence list, first match wins:
  floating-point, signed integer, unsigned integer, object-typed or categorical, boolean,
  datetime-like, textual. This is that list and that rule, for comparison with the loop.
\<close>

definition precedence :: "'d dtype_api \<Rightarrow> (('d entry \<Rightarrow> bool) \<times> DtypeKind) list" where
  "precedence P =
     [(is_float_dtype P, FLOAT),
      (is_signed_integer_dtype P, INT_kind),
      (is_unsigned_integer_dtype P, UINT),
      (\<lambda>e. dtype_eq P e ''object'' \<or> dtype_eq P e ''category'', CATEGORICAL),
      (is_bool_dtype P, BOOL),
      (is_datetime64_any_dtype P, DATETIME),
      (is_string_dtype P, STRING)]"

fun first_match :: "(('a \<Rightarrow> bool) \<times> 'k) list \<Rightarrow> 'a \<Rightarrow> 'k option" where
  "first_match [] x = None"
| "first_match ((p, k) # rest) x = (if p x then Some k else first_match rest x)"

definition matches_none :: "'d dtype_api \<Rightarrow> 'd entry \<Rightarrow> bool" where
  "matches_none P e \<longleftrightarrow>
     \<not> is_float_dtype P e \<and> \<not> is_signed_integer_dtype P e \<and>
     \<not> is_unsigned_integer_dtype P e \<and> \<not> dtype_eq P e ''object'' \<and>
     \<not> dtype_eq P e ''category'' \<and> \<not> is_bool_dtype P e \<and>
     \<not> is_datetime64_any_dtype P e \<and> \<not> is_string_dtype P e"

text \<open>What the rule makes of one entry: its kind, or the entry itself when nothing matches.\<close>

definition relabel :: "'d dtype_api \<Rightarrow> 'd entry \<Rightarrow> 'd entry" where
  "relabel P e = (case first_match (precedence P) e of Some k \<Rightarrow> Kind k | None \<Rightarrow> e)"

text \<open>
  A numeric column is stored as a float or an integer dtype. A text column is stored as a
  dtype that pandas counts as a string dtype (the object dtype and the dedicated string
  dtype both are) and as none of float, integer, boolean or datetime.
\<close>

definition numeric_dtype :: "'d dtype_api \<Rightarrow> 'd entry \<Rightarrow> bool" where
  "numeric_dtype P e \<longleftrightarrow>
     is_float_dtype P e \<or> is_signed_integer_dtype P e \<or> is_unsigned_integer_dtype P e"

definition text_dtype :: "'d dtype_api \<Rightarrow> 'd entry \<Rightarrow> bool" where
  "text_dtype P e \<longleftrightarrow>
     is_string_dtype P e \<and> \<not> numeric_dtype P e \<and>
     \<not> is_bool_dtype P e \<and> \<not> is_datetime64_any_dtype P e"

subsection \<open>One panel, three representations\<close>

text \<open>
  The logical content of a panel: the variables with their names and storage dtypes, and
  for every instance its rows over time, each row holding one value per variable. This is
  how \<^verbatim>\<open>test_feature_kind_for_panel\<close> writes its data down before building the
  containers.
\<close>

record ('d, 'v) panel_content =
  var_names :: "string list"
  var_dtypes :: "'d list"
  instances :: "'v list list list"

definition wf_content :: "('d, 'v) panel_content \<Rightarrow> bool" where
  "wf_content c \<longleftrightarrow>
     length (var_dtypes c) = length (var_names c) \<and> distinct (var_names c) \<and>
     list_all (\<lambda>rows. list_all (\<lambda>row. length row = length (var_names c)) rows) (instances c)"

definition column_of :: "'v list list \<Rightarrow> nat \<Rightarrow> ('d, 'v) pyobj list" where
  "column_of rows j = map (\<lambda>row. PyScalar (row ! j)) rows"

definition flat_index :: "nat \<Rightarrow> int list list" where
  "flat_index n = map (\<lambda>t. [int t]) [0..<n]"

text \<open>A table of the given rows: one column per variable, rows labelled 0, 1, ...\<close>

definition frame_columns ::
  "('d, 'v) panel_content \<Rightarrow> 'v list list \<Rightarrow> (string \<times> 'd \<times> ('d, 'v) pyobj list) list" where
  "frame_columns c rows =
     map (\<lambda>(j, name, d). (name, d, column_of rows j))
       (enumerate 0 (zip (var_names c) (var_dtypes c)))"

text \<open>df-list: a list with one table per instance.\<close>

definition encode_df_list :: "('d, 'v) panel_content \<Rightarrow> ('d, 'v) pyobj" where
  "encode_df_list c =
     PyList (map (\<lambda>rows. PdDataFrame (flat_index (length rows)) (frame_columns c rows))
               (instances c))"

text \<open>
  pd-multiindex: the tables stacked into one, each row labelled by (instance, time point).
\<close>

definition encode_pd_multiindex :: "('d, 'v) panel_content \<Rightarrow> ('d, 'v) pyobj" where
  "encode_pd_multiindex c =
     PdDataFrame
       (concat (map (\<lambda>(i, rows). map (\<lambda>t. [int i, int t]) [0..<length rows])
                  (enumerate 0 (instances c))))
       (frame_columns c (concat (instances c)))"

text \<open>
  nested\_univ: one row per instance; the cell of a variable holds that instance's series
  of the variable, stored with the variable's dtype. The outer columns hold objects and
  have dtype \<open>object_d\<close>.
\<close>

definition encode_nested_univ :: "'d \<Rightarrow> ('d, 'v) panel_content \<Rightarrow> ('d, 'v) pyobj" where
  "encode_nested_univ object_d c =
     PdDataFrame (flat_index (length (instances c)))
       (map (\<lambda>(j, name, d).
               (name, object_d,
                map (\<lambda>rows. PdSeries d (flat_index (length rows)) (column_of rows j))
                  (instances c)))
          (enumerate 0 (zip (var_names c) (var_dtypes c))))"

subsection \<open>The library on some common dtypes\<close>

text \<open>
  What the pandas predicates answer on ten storage dtypes, for the concrete examples.
  The object dtype equals the string "object" and also counts as a string dtype; the
  categorical dtype equals "category" and does not. Complex numbers and time differences
  satisfy none of the predicates, and neither does a DtypeKind member.
\<close>

datatype np_dtype =
  float64 | int64 | uint8 | object_dtype | category_dtype | bool_dtype | datetime64 |
  string_dtype | complex128 | timedelta64

definition pandas_types :: "np_dtype dtype_api" where
  "pandas_types =
     \<lparr> is_float_dtype = (\<lambda>e. e = Dtype float64),
       is_signed_integer_dtype = (\<lambda>e. e = Dtype int64),
       is_unsigned_integer_dtype = (\<lambda>e. e = Dtype uint8),
       dtype_eq = (\<lambda>e s. (e = Dtype object_dtype \<and> s = ''object'') \<or>
                          (e = Dtype category_dtype \<and> s = ''category'')),
       is_bool_dtype = (\<lambda>e. e = Dtype bool_dtype),
       is_datetime64_any_dtype = (\<lambda>e. e = Dtype datetime64),
       is_string_dtype = (\<lambda>e. e = Dtype object_dtype \<or> e = Dtype string_dtype) \<rparr>"

datatype cell_value = IntV int | StrV string

text \<open>The panel of \<^verbatim>\<open>test_feature_kind_for_panel\<close>: an integer and a text variable.\<close>

definition test_panel :: "(np_dtype, cell_value) panel_content" where
  "test_panel =
     \<lparr> var_names = [''var_0'', ''var_1''],
       var_dtypes = [int64, object_dtype],
       instances =
         [[[IntV 1, StrV ''a''], [IntV 2, StrV ''b''], [IntV 3, StrV ''c'']],
          [[IntV 1, StrV ''a''], [IntV 2, StrV ''c''], [IntV 3, StrV ''d'']]] \<rparr>"

text \<open>
  Example inputs: a store with two lists, a store with a list holding a complex dtype, and
  a table with a float and a complex column.
\<close>

definition two_lists :: "np_dtype heap" where
  "two_lists = (\<lambda>_. [])(0 := [Dtype int64, Dtype complex128], 1 := [Dtype uint8])"

definition complex_list :: "np_dtype heap" where
  "complex_list = (\<lambda>_. [])(0 := [Dtype float64, Dtype complex128])"

definition complex_frame :: "(np_dtype, cell_value) pyobj" where
  "complex_frame =
     PdDataFrame [[0], [1]]
       [(''a'', float64, [PyScalar (IntV 1), PyScalar (IntV 2)]),
        (''b'', complex128, [PyScalar (IntV 3), PyScalar (IntV 4)])]"

section \<open>The input checks of the regressor base class\<close>

text \<open>
  \<^verbatim>\<open>sktime/regression/base.py\<close>, the home of \<^verbatim>\<open>BaseRegressor\<close>, is not among the
  sources; \<^verbatim>\<open>sktime/regression/tests/test_base.py\<close>, which exercises it, is.
\<close>

subsection \<open>\_check\_capabilities\<close>

text \<open>
  Modelled from the spec: the capability tags an estimator declares (section 3, "Estimator
  capability tags"), whose declaration in \<^verbatim>\<open>BaseRegressor\<close> is missing. The tag
  names are those \<^verbatim>\<open>_DummyHandlesAllInput\<close> sets in the test.
\<close>

record capability_tags =
  capability_multivariate :: bool
  capability_unequal_length :: bool
  capability_missing_values :: bool

text \<open>
  Modelled from the spec: an estimator as the check sees it, its tags and its role
  (section 9: the role is an explicit flag, "is composite"); the class is missing.
\<close>

record estimator =
  tags :: capability_tags
  is_composite :: bool

text \<open>
  Modelled from the spec: the X metadata record of section 3, which the missing
  \<^verbatim>\<open>_check_input\<close> computes and the test passes as a dict.
\<close>

record X_metadata =
  has_nans :: bool
  is_univariate :: bool
  is_equal_length :: bool
  n_instances :: nat
  n_features :: nat

text \<open>
  Modelled from the spec: the three outcomes of the missing \<^verbatim>\<open>_check_capabilities\<close>
  (section 7): it returns silently, it returns after a UserWarning naming the problems, or
  it raises a ValueError naming them.
\<close>

datatype check_outcome = Passes | Warns "string list" | Raises "string list"

text \<open>
  Modelled from the spec: \<^verbatim>\<open>BaseRegressor._check_capabilities\<close>, which is missing; only
  its test \<^verbatim>\<open>test_check_capabilities\<close> is there. The specification (4.3, step 3):
  missing values, a multivariate input or unequal length is rejected when the estimator
  does not declare the capability; a leaf estimator rejects with a hard validation error,
  a composite one with a non-fatal warning, after which it proceeds. The problem names are
  the message fragments the test matches.
\<close>

definition check_capabilities :: "estimator \<Rightarrow> X_metadata \<Rightarrow> check_outcome" where
  "check_capabilities self X_metadata =
     (let problems =
            (if has_nans X_metadata \<and> \<not> capability_missing_values (tags self)
             then [''missing values''] else []) @
            (if \<not> is_univariate X_metadata \<and> \<not> capability_multivariate (tags self)
             then [''multivariate series''] else []) @
            (if \<not> is_equal_length X_metadata \<and> \<not> capability_unequal_length (tags self)
             then [''unequal length series''] else [])
      in if problems = [] then Passes
         else if is_composite self then Warns problems
         else Raises problems)"

text \<open>
  The estimators of the test: \<^verbatim>\<open>_DummyRegressor\<close> and \<^verbatim>\<open>_DummyComposite\<close> declare no
  capability, \<^verbatim>\<open>_DummyHandlesAllInput\<close> declares all three.
\<close>

definition no_capabilities :: capability_tags where
  "no_capabilities =
     \<lparr> capability_multivariate = False, capability_unequal_length = False,
       capability_missing_values = False \<rparr>"

definition all_capabilities :: capability_tags where
  "all_capabilities =
     \<lparr> capability_multivariate = True, capability_unequal_length = True,
       capability_missing_values = True \<rparr>"

definition handles_none :: estimator where
  "handles_none = \<lparr> tags = no_capabilities, is_composite = False \<rparr>"

definition handles_none_composite :: estimator where
  "handles_none_composite = \<lparr> tags = no_capabilities, is_composite = True \<rparr>"

text \<open>
  What the metadata asks of an estimator: at least one flag shows data that needs a
  capability, and the names of those that do, in the order of the checks.
\<close>

definition unsupported :: "X_metadata \<Rightarrow> bool" where
  "unsupported X_metadata \<longleftrightarrow>
     has_nans X_metadata \<or> \<not> is_univariate X_metadata \<or> \<not> is_equal_length X_metadata"

definition problems_of :: "X_metadata \<Rightarrow> string list" where
  "problems_of X_metadata =
     (if has_nans X_metadata then [''missing values''] else []) @
     (if \<not> is_univariate X_metadata then [''multivariate series''] else []) @
     (if \<not> is_equal_length X_metadata then [''unequal length series''] else [])"

definition nans_unequal :: X_metadata where
  "nans_unequal =
     \<lparr> has_nans = True, is_univariate = True, is_equal_length = False,
       n_instances = 5, n_features = 1 \<rparr>"

definition clean_univariate :: X_metadata where
  "clean_univariate =
     \<lparr> has_nans = False, is_univariate = True, is_equal_length = True,
       n_instances = 5, n_features = 1 \<rparr>"

subsection \<open>\_check\_input\<close>

text \<open>
  Modelled from the spec: the two dimension errors of the missing \<^verbatim>\<open>_check_input\<close>
  (section 7, "Dimension mismatch"), both ValueErrors, told apart by the message the test
  matches. Each carries the numbers it reports.
\<close>

datatype dimension_error =
    Mismatch_in_number_of_cases nat nat
  | Minimum_number_of_cases_required int nat

text \<open>
  Modelled from the spec: the minimum check of the missing
  \<^verbatim>\<open>BaseRegressor._check_input\<close>: the number of instances of X is below the configured
  minimum (sections 4.3 and 7).
\<close>

definition check_minimum :: "nat \<Rightarrow> int \<Rightarrow> dimension_error + unit" where
  "check_minimum n_cases enforce_min_instances =
     (if int n_cases < enforce_min_instances
      then Inl (Minimum_number_of_cases_required enforce_min_instances n_cases)
      else Inr ())"

text \<open>
  Modelled from the spec: the mismatch check of the missing
  \<^verbatim>\<open>BaseRegressor._check_input\<close>: y is passed and its number of labels differs from the
  number of instances of X (sections 4.3 and 7). \<open>None\<close> is \<^verbatim>\<open>y=None\<close>.
\<close>

definition check_mismatch :: "nat \<Rightarrow> nat option \<Rightarrow> dimension_error + unit" where
  "check_mismatch n_cases y =
     (case y of
        None \<Rightarrow> Inr ()
      | Some n_labels \<Rightarrow>
          if n_cases \<noteq> n_labels then Inl (Mismatch_in_number_of_cases n_cases n_labels)
          else Inr ())"

text \<open>
  Modelled from the spec: \<^verbatim>\<open>BaseRegressor._check_input\<close>, which is missing; only its test
  \<^verbatim>\<open>test__check_regressor_input\<close> is there. The specification (4.3 and 7): the two
  dimension checks are distinct conditions, raised independently. X is given by its number
  of instances and y by its number of labels, for inputs that pass the type checks. A call
  raises one exception; the specification does not say which check runs first, so the
  order is a parameter.
\<close>

definition check_input :: "bool \<Rightarrow> nat \<Rightarrow> nat option \<Rightarrow> int \<Rightarrow> dimension_error + unit" where
  "check_input minimum_first n_cases y enforce_min_instances =
     (if minimum_first then
        (case check_minimum n_cases enforce_min_instances of
           Inl e \<Rightarrow> Inl e
         | Inr u \<Rightarrow> check_mismatch n_cases y)
      else
        (case check_mismatch n_cases y of
           Inl e \<Rightarrow> Inl e
         | Inr u \<Rightarrow> check_minimum n_cases enforce_min_instances))"

section \<open>Properties\<close>

subsection \<open>The loop of \_pandas\_dtype\_to\_kind\<close>

lemma loop_step:
  "i < length (h a) \<Longrightarrow>
   pandas_dtype_to_kind_loop P a i h =
   pandas_dtype_to_kind_loop P a (Suc i) (store_item h a i (relabel P (h a ! i)))"
  by (subst pandas_dtype_to_kind_loop.simps)
     (simp add: relabel_def precedence_def store_item_def Let_def)

lemma loop_stop: "\<not> i < length (h a) \<Longrightarrow> pandas_dtype_to_kind_loop P a i h = h"
  by (subst pandas_dtype_to_kind_loop.simps) simp

text \<open>
  Started at position \<open>i\<close>, the loop leaves the entries before \<open>i\<close> alone, relabels the
  others, and touches no other list.
\<close>

lemma loop_spec:
  "pandas_dtype_to_kind_loop P a i h =
   h(a := take i (h a) @ map (relabel P) (drop i (h a)))"
proof (induction "length (h a) - i" arbitrary: i h)
  case 0
  then show ?case by (simp add: loop_stop)
next
  case (Suc n)
  then have lt: "i < length (h a)" by simp
  let ?h = "store_item h a i (relabel P (h a ! i))"
  have n: "n = length (?h a) - Suc i" using Suc.hyps(2) by (simp add: store_item_def)
  have "pandas_dtype_to_kind_loop P a i h = pandas_dtype_to_kind_loop P a (Suc i) ?h"
    using lt by (rule loop_step)
  also have "\<dots> = ?h(a := take (Suc i) (?h a) @ map (relabel P) (drop (Suc i) (?h a)))"
    using Suc.hyps(1)[of ?h "Suc i"] n by simp
  also have "\<dots> = h(a := take i (h a) @ map (relabel P) (drop i (h a)))"
    using lt by (simp add: store_item_def take_Suc_conv_app_nth Cons_nth_drop_Suc[symmetric])
  finally show ?case .
qed

lemma pandas_dtype_to_kind_eq:
  "pandas_dtype_to_kind P h a = (a, h(a := map (relabel P) (h a)))"
  by (simp add: pandas_dtype_to_kind_def loop_spec)

lemma fresh_eq: "pandas_dtype_to_kind_fresh P l = map (relabel P) l"
  by (simp add: pandas_dtype_to_kind_fresh_def pandas_dtype_to_kind_eq)

lemma relabel_matches_none: "matches_none P e \<Longrightarrow> relabel P e = e"
  by (simp add: relabel_def precedence_def matches_none_def)

lemma relabel_match:
  "\<not> matches_none P e \<Longrightarrow>
   \<exists>k. first_match (precedence P) e = Some k \<and> relabel P e = Kind k"
  by (auto simp: relabel_def precedence_def matches_none_def)

subsection \<open>The dict lookup of \_get\_feature\_kind\<close>

lemma DtypeKind_UNIV:
  "(UNIV :: DtypeKind set) = {INT_kind, UINT, FLOAT, BOOL, STRING, DATETIME, CATEGORICAL}"
  by (auto intro: DtypeKind.exhaust)

lemma dict_getitem_Kind:
  "dict_getitem feature_kind_map (Kind k :: 'd entry) =
     Inr (if k = CATEGORICAL \<or> k = STRING \<or> k = BOOL \<or> k = DATETIME
          then CATEGORICAL else FLOAT)"
  by (cases k) (simp_all add: feature_kind_map_def)

lemma dict_getitem_range:
  fixes e :: "'d entry"
  assumes "dict_getitem feature_kind_map e = Inr v"
  shows "v = CATEGORICAL \<or> v = FLOAT"
proof (cases e)
  case (Dtype d)
  with assms show ?thesis by simp
next
  case (Kind k)
  with assms have "v = (if k = CATEGORICAL \<or> k = STRING \<or> k = BOOL \<or> k = DATETIME
                       then CATEGORICAL else FLOAT)"
    by (simp only: dict_getitem_Kind sum.inject)
  then show ?thesis by (simp split: if_splits)
qed

lemma feature_loop_Kinds:
  "get_feature_kind_loop (map Kind ks) acc =
     Inr (acc @ map (\<lambda>k. if k = CATEGORICAL \<or> k = STRING \<or> k = BOOL \<or> k = DATETIME
                          then CATEGORICAL else FLOAT) ks)"
  by (induction ks arbitrary: acc) (simp_all add: dict_getitem_Kind del: dict_getitem.simps)

lemma feature_loop_range:
  "get_feature_kind_loop es acc = Inr fs \<Longrightarrow> set fs \<subseteq> set acc \<union> {CATEGORICAL, FLOAT}"
proof (induction es arbitrary: acc)
  case Nil
  then show ?case by auto
next
  case (Cons e es)
  then show ?case
    by (fastforce split: sum.splits dest: dict_getitem_range)
qed

lemma feature_loop_Dtype:
  "Dtype d \<in> set es \<Longrightarrow> get_feature_kind_loop es acc = Inl KeyError"
proof (induction es arbitrary: acc)
  case Nil
  then show ?case by simp
next
  case (Cons e es)
  show ?case
  proof (cases e)
    case (Dtype x)
    then show ?thesis by simp
  next
    case (Kind k)
    with Cons show ?thesis by (simp add: dict_getitem_Kind del: dict_getitem.simps)
  qed
qed

subsection \<open>Feature kinds of numeric and text dtypes\<close>

lemma relabel_numeric:
  "numeric_dtype P e \<Longrightarrow> \<exists>k. relabel P e = Kind k \<and> (k = FLOAT \<or> k = INT_kind \<or> k = UINT)"
  by (auto simp: numeric_dtype_def relabel_def precedence_def)

lemma relabel_text:
  "text_dtype P e \<Longrightarrow> \<exists>k. relabel P e = Kind k \<and> (k = CATEGORICAL \<or> k = STRING)"
  by (auto simp: text_dtype_def numeric_dtype_def relabel_def precedence_def)

lemma feature_kind_numeric_text:
  assumes "\<forall>e \<in> set es. numeric_dtype P e \<or> text_dtype P e"
  shows "get_feature_kind_loop (map (relabel P) es) acc
         = Inr (acc @ map (\<lambda>e. if numeric_dtype P e then FLOAT else CATEGORICAL) es)"
  using assms
proof (induction es arbitrary: acc)
  case Nil
  then show ?case by simp
next
  case (Cons e es)
  have "\<exists>k. relabel P e = Kind k \<and>
          (if k = CATEGORICAL \<or> k = STRING \<or> k = BOOL \<or> k = DATETIME then CATEGORICAL else FLOAT)
          = (if numeric_dtype P e then FLOAT else CATEGORICAL)"
  proof (cases "numeric_dtype P e")
    case True
    then show ?thesis using relabel_numeric [of P e] by auto
  next
    case False
    then have "text_dtype P e" using Cons.prems by simp
    then show ?thesis using False relabel_text [of P e] by auto
  qed
  then obtain k where k: "relabel P e = Kind k"
    and fk: "(if k = CATEGORICAL \<or> k = STRING \<or> k = BOOL \<or> k = DATETIME
              then CATEGORICAL else FLOAT)
             = (if numeric_dtype P e then FLOAT else CATEGORICAL)" by blast
  have "dict_getitem feature_kind_map (relabel P e)
        = Inr (if numeric_dtype P e then FLOAT else CATEGORICAL)"
    unfolding k dict_getitem_Kind using fk by simp
  then show ?case using Cons by simp
qed

subsection \<open>What the classifier reads from each representation\<close>

lemma map_result_nth:
  "length xs = length ys \<Longrightarrow> (\<And>j. j < length xs \<Longrightarrow> f (xs ! j) = Inr (ys ! j)) \<Longrightarrow>
   map_result f xs = Inr ys"
proof (induction xs ys rule: list_induct2)
  case Nil
  then show ?case by simp
next
  case (Cons x xs y ys)
  have "f x = Inr y" using Cons.prems [of 0] by simp
  moreover have "map_result f xs = Inr ys"
  proof (rule Cons.IH)
    fix j assume "j < length xs"
    then show "f (xs ! j) = Inr (ys ! j)" using Cons.prems [of "Suc j"] by simp
  qed
  ultimately show ?case by simp
qed

lemma frame_columns_dtypes:
  assumes len: "length (var_dtypes c) = length (var_names c)"
  shows "map (\<lambda>(name, d, vals). d) (frame_columns c rows) = var_dtypes c"
proof -
  have "map (\<lambda>(name, d, vals). d) (frame_columns c rows)
        = map (snd \<circ> snd) (enumerate 0 (zip (var_names c) (var_dtypes c)))"
    by (simp add: frame_columns_def case_prod_unfold comp_def)
  also have "\<dots> = map snd (zip (var_names c) (var_dtypes c))"
    by (simp flip: map_map)
  also have "\<dots> = var_dtypes c" using len by simp
  finally show ?thesis .
qed

text \<open>Under the row labels 0, 1, ... the row labelled 0 is the first one.\<close>

lemma getitem0_flat:
  assumes "vals = v # vs"
  shows "getitem0 (PdSeries d (flat_index (length vals)) vals) = Inr v"
proof -
  have idx: "flat_index (Suc (length vs)) = [0] # map (\<lambda>t. [int t]) [1..<Suc (length vs)]"
    by (simp add: flat_index_def upt_conv_Cons del: upt_Suc)
  have "\<not> (\<lambda>(l, v). l \<noteq> [] \<and> hd l = 0) x"
    if "x \<in> set (zip (map (\<lambda>t. [int t]) [1..<Suc (length vs)]) vs)" for x
    using that by (auto elim!: in_set_zipE)
  then have rest: "filter (\<lambda>(l, v). l \<noteq> [] \<and> hd l = 0)
                     (zip (map (\<lambda>t. [int t]) [1..<Suc (length vs)]) vs) = []"
    by (intro filter_False ballI)
  show ?thesis
    by (simp add: assms idx rest del: upt_Suc)
qed

lemma nested_columns_zip:
  "length ds = length ns \<Longrightarrow>
   map (\<lambda>(j, name, d). (name, g j d)) (enumerate 0 (zip ns ds))
   = zip ns (map (\<lambda>(j, d). g j d) (enumerate 0 ds))"
  by (simp add: list_eq_iff_nth_eq nth_enumerate_eq)

lemma nested_first_row_dtype:
  assumes wf: "wf_content c" and ne: "instances c \<noteq> []" and j: "j < length (var_names c)"
  shows "first_row_dtype (encode_nested_univ object_d c) (var_names c ! j)
         = Inr (var_dtypes c ! j)"
proof -
  let ?cells = "\<lambda>j d. map (\<lambda>rows. PdSeries d (flat_index (length rows)) (column_of rows j))
                          (instances c)"
  let ?g = "\<lambda>j d. (object_d, ?cells j d)"
  have len: "length (var_dtypes c) = length (var_names c)" and dist: "distinct (var_names c)"
    using wf by (simp_all add: wf_content_def)
  have cols: "map (\<lambda>(j, name, d). (name, object_d, ?cells j d))
                (enumerate 0 (zip (var_names c) (var_dtypes c)))
              = zip (var_names c) (map (\<lambda>(j, d). ?g j d) (enumerate 0 (var_dtypes c)))"
    using nested_columns_zip [OF len, of ?g] .
  have look: "map_of (zip (var_names c) (map (\<lambda>(j, d). ?g j d) (enumerate 0 (var_dtypes c))))
                (var_names c ! j) = Some (?g j (var_dtypes c ! j))"
    using map_of_zip_nth [of "var_names c" "map (\<lambda>(j, d). ?g j d) (enumerate 0 (var_dtypes c))" j]
      len dist j by (simp add: nth_enumerate_eq)
  obtain rows rest where inst: "instances c = rows # rest"
    using ne by (cases "instances c") auto
  have cells: "?cells j (var_dtypes c ! j)
               = PdSeries (var_dtypes c ! j) (flat_index (length rows)) (column_of rows j)
                 # map (\<lambda>rows. PdSeries (var_dtypes c ! j) (flat_index (length rows))
                                 (column_of rows j)) rest"
    by (simp add: inst)
  have row0: "getitem0 (PdSeries object_d (flat_index (length (instances c)))
                          (?cells j (var_dtypes c ! j)))
              = Inr (PdSeries (var_dtypes c ! j) (flat_index (length rows)) (column_of rows j))"
    using getitem0_flat [OF cells, of object_d] by simp
  show ?thesis
    unfolding first_row_dtype_def encode_nested_univ_def
    by (simp only: getitem_col.simps cols look option.case prod.case sum.case row0 dtype_attr.simps)
qed

lemma df_list_dtypekind:
  assumes wf: "wf_content c" and ne: "instances c \<noteq> []"
  shows "get_panel_dtypekind P (encode_df_list c) (PyStr ''df-list'')
         = Inr (map (relabel P) (map Dtype (var_dtypes c)))"
proof -
  have len: "length (var_dtypes c) = length (var_names c)"
    using wf by (simp add: wf_content_def)
  obtain rows rest where inst: "instances c = rows # rest"
    using ne by (cases "instances c") auto
  have first: "getitem0 (encode_df_list c)
               = Inr (PdDataFrame (flat_index (length rows)) (frame_columns c rows))"
    by (simp add: encode_df_list_def inst)
  have "get_series_dtypekind P (PdDataFrame (flat_index (length rows)) (frame_columns c rows))
          pd_DataFrame = Inr (map (relabel P) (map Dtype (var_dtypes c)))"
    by (simp add: get_series_dtypekind_def pd_DataFrame_def np_ndarray_def pd_Series_def
        frame_columns_dtypes [OF len] fresh_eq)
  then show ?thesis
    by (simp add: get_panel_dtypekind_def first)
qed

text \<open>Without an instance there is no first table: \<^verbatim>\<open>obj[0]\<close> raises.\<close>

lemma df_list_empty:
  "instances c = [] \<Longrightarrow>
   get_panel_dtypekind P (encode_df_list c) (PyStr ''df-list'') = Inl IndexError"
  by (simp add: get_panel_dtypekind_def encode_df_list_def)

lemma pd_multiindex_dtypekind:
  assumes wf: "wf_content c"
  shows "get_panel_dtypekind P (encode_pd_multiindex c) (PyStr ''pd-multiindex'')
         = Inr (map (relabel P) (map Dtype (var_dtypes c)))"
proof -
  have len: "length (var_dtypes c) = length (var_names c)"
    using wf by (simp add: wf_content_def)
  show ?thesis
    by (simp add: get_panel_dtypekind_def encode_pd_multiindex_def
        frame_columns_dtypes [OF len] fresh_eq)
qed

lemma nested_univ_dtypekind:
  assumes wf: "wf_content c" and ne: "instances c \<noteq> []"
  shows "get_panel_dtypekind P (encode_nested_univ object_d c) (PyStr ''nested_univ'')
         = Inr (map (relabel P) (map Dtype (var_dtypes c)))"
proof -
  have len: "length (var_names c) = length (var_dtypes c)"
    using wf by (simp add: wf_content_def)
  have names: "columns_to_list (encode_nested_univ object_d c) = Inr (var_names c)"
  proof -
    have "map fst (map (\<lambda>(j, name, d). (name, object_d,
                 map (\<lambda>rows. PdSeries d (flat_index (length rows)) (column_of rows j))
                   (instances c)))
             (enumerate 0 (zip (var_names c) (var_dtypes c))))
          = map (fst \<circ> snd) (enumerate 0 (zip (var_names c) (var_dtypes c)))"
      by (simp add: case_prod_unfold comp_def)
    also have "\<dots> = map fst (zip (var_names c) (var_dtypes c))"
      by (simp flip: map_map)
    also have "\<dots> = var_names c" using len by simp
    finally show ?thesis by (simp add: encode_nested_univ_def)
  qed
  have dtypes: "map_result (first_row_dtype (encode_nested_univ object_d c)) (var_names c)
                = Inr (var_dtypes c)"
    using len nested_first_row_dtype [OF wf ne] by (rule map_result_nth)
  show ?thesis
    by (simp add: get_panel_dtypekind_def names dtypes fresh_eq)
qed

subsection \<open>The claims\<close>

text \<open>
  C1, as the code has it. The claim says that a dtype matching none of the predicates makes
  the classification fail with an error. In the code the if/elif chain has no else branch
  and nothing is raised: \_pandas\_dtype\_to\_kind returns, and the entry is still the
  storage dtype it was. The column is not given a kind, and it is passed through
  unclassified. Such a list then makes \_get\_feature\_kind fail with KeyError.
\<close>

theorem unclassifiable_left_as_dtype:
  assumes "pandas_dtype_to_kind P h col_dtypes = (r, h')"
    and "i < length (h col_dtypes)"
    and "h col_dtypes ! i = Dtype d"
    and "matches_none P (Dtype d)"
  shows "h' r ! i = Dtype d \<and> (\<forall>k. h' r ! i \<noteq> Kind k) \<and>
         get_feature_kind (h' r) = Inl KeyError"
proof -
  have h': "h' r = map (relabel P) (h col_dtypes)"
    using assms(1) by (auto simp: pandas_dtype_to_kind_eq)
  have at_i: "h' r ! i = Dtype d"
    using assms(2-4) by (simp add: h' relabel_matches_none)
  have "i < length (h' r)" using assms(2) by (simp add: h')
  then have "h' r ! i \<in> set (h' r)" by (rule nth_mem)
  then have "get_feature_kind (h' r) = Inl KeyError"
    by (simp add: at_i get_feature_kind_def feature_loop_Dtype)
  with at_i show ?thesis by simp
qed

theorem unclassifiable_left_as_dtype_witness:
  "matches_none pandas_types (Dtype complex128)
   \<and> snd (pandas_dtype_to_kind pandas_types complex_list 0) 0 = [Kind FLOAT, Dtype complex128]
   \<and> get_feature_kind [Kind FLOAT, Dtype complex128 :: np_dtype entry] = Inl KeyError"
proof -
  obtain r h' where run: "pandas_dtype_to_kind pandas_types complex_list 0 = (r, h')"
    by (cases "pandas_dtype_to_kind pandas_types complex_list 0")
  have len: "1 < length (complex_list 0)" by (simp add: complex_list_def)
  have at: "complex_list 0 ! 1 = Dtype complex128" by (simp add: complex_list_def)
  have none: "matches_none pandas_types (Dtype complex128)"
    by (simp add: matches_none_def pandas_types_def)
  have float: "relabel pandas_types (Dtype float64) = Kind FLOAT"
    by (simp add: relabel_def precedence_def pandas_types_def)
  have res: "h' r = [Kind FLOAT, Dtype complex128]"
    using run
    by (auto simp: pandas_dtype_to_kind_eq complex_list_def float relabel_matches_none [OF none])
  have "get_feature_kind (h' r) = Inl KeyError"
    using unclassifiable_left_as_dtype [OF run len at none] by simp
  then show ?thesis using none res run by (auto simp: pandas_dtype_to_kind_eq)
qed

text \<open>
  C1, as stated, fails: the complex dtype matches no predicate, and a table with a complex
  column is classified without any error, the complex column coming back as its dtype.
\<close>

theorem unclassifiable_passes_through_counterexample:
  "matches_none pandas_types (Dtype complex128)
   \<and> get_series_dtypekind pandas_types complex_frame pd_DataFrame
       = Inr [Kind FLOAT, Dtype complex128]
   \<and> snd (pandas_dtype_to_kind pandas_types complex_list 0) 0 = [Kind FLOAT, Dtype complex128]"
  by (simp add: matches_none_def get_series_dtypekind_def complex_frame_def pd_DataFrame_def
      np_ndarray_def pd_Series_def fresh_eq pandas_dtype_to_kind_eq relabel_def precedence_def
      complex_list_def)
     (simp add: pandas_types_def)

text \<open>
  C2. Whatever the three flags of the metadata are: an estimator without capabilities that
  is a leaf raises a ValueError exactly when a flag shows unsupported data, naming each
  problem, and returns silently exactly when none does; it never warns. The composite
  estimator without capabilities warns, with the same problems, where the leaf raises, and
  never raises. An estimator with all three capabilities returns silently.
\<close>

theorem check_capabilities_policy:
  "(unsupported md \<longrightarrow>
      problems_of md \<noteq> [] \<and>
      check_capabilities handles_none md = Raises (problems_of md) \<and>
      check_capabilities handles_none_composite md = Warns (problems_of md)) \<and>
   (\<not> unsupported md \<longrightarrow>
      check_capabilities handles_none md = Passes \<and>
      check_capabilities handles_none_composite md = Passes) \<and>
   ((\<exists>ps. check_capabilities handles_none md = Raises ps) \<longleftrightarrow> unsupported md) \<and>
   (check_capabilities handles_none md = Passes \<longleftrightarrow> \<not> unsupported md) \<and>
   (\<forall>ps. check_capabilities handles_none md \<noteq> Warns ps) \<and>
   (\<forall>ps. check_capabilities handles_none_composite md \<noteq> Raises ps) \<and>
   check_capabilities \<lparr> tags = all_capabilities, is_composite = composite \<rparr> md = Passes"
  by (simp add: check_capabilities_def handles_none_def handles_none_composite_def
      no_capabilities_def all_capabilities_def unsupported_def problems_of_def)

theorem check_capabilities_policy_witness:
  "unsupported nans_unequal
   \<and> check_capabilities handles_none nans_unequal
       = Raises [''missing values'', ''unequal length series'']
   \<and> check_capabilities handles_none_composite nans_unequal
       = Warns [''missing values'', ''unequal length series'']
   \<and> \<not> unsupported clean_univariate
   \<and> check_capabilities handles_none clean_univariate = Passes
   \<and> check_capabilities handles_none_composite clean_univariate = Passes
   \<and> check_capabilities \<lparr> tags = all_capabilities, is_composite = False \<rparr> nans_unequal = Passes"
proof -
  have u: "unsupported nans_unequal" by (simp add: unsupported_def nans_unequal_def)
  have s: "\<not> unsupported clean_univariate" by (simp add: unsupported_def clean_univariate_def)
  have p: "problems_of nans_unequal = [''missing values'', ''unequal length series'']"
    by (simp add: problems_of_def nans_unequal_def)
  show ?thesis
    using u s check_capabilities_policy [of nans_unequal False]
      check_capabilities_policy [of clean_univariate False]
    by (simp add: p)
qed

text \<open>
  C3. Take a panel with at least one instance whose variables are each stored as a numeric
  or as a text dtype, and encode it as df-list, as pd-multiindex and as nested\_univ.
  \_get\_panel\_dtypekind followed by \_get\_feature\_kind returns the same sequence for all
  three: FLOAT for a numeric variable, CATEGORICAL for a text variable. A panel of one
  numeric and one text column is the case of two variables.
\<close>

theorem panel_representation_invariance:
  assumes "wf_content c" and "instances c \<noteq> []"
    and "\<forall>d \<in> set (var_dtypes c). numeric_dtype P (Dtype d) \<or> text_dtype P (Dtype d)"
  shows "panel_feature_kind P (encode_df_list c) (PyStr ''df-list'')
           = Inr (map (\<lambda>d. if numeric_dtype P (Dtype d) then FLOAT else CATEGORICAL)
                    (var_dtypes c))
       \<and> panel_feature_kind P (encode_pd_multiindex c) (PyStr ''pd-multiindex'')
           = Inr (map (\<lambda>d. if numeric_dtype P (Dtype d) then FLOAT else CATEGORICAL)
                    (var_dtypes c))
       \<and> panel_feature_kind P (encode_nested_univ object_d c) (PyStr ''nested_univ'')
           = Inr (map (\<lambda>d. if numeric_dtype P (Dtype d) then FLOAT else CATEGORICAL)
                    (var_dtypes c))"
proof -
  have "\<forall>e \<in> set (map Dtype (var_dtypes c)). numeric_dtype P e \<or> text_dtype P e"
    using assms(3) by simp
  then have "get_feature_kind (map (relabel P) (map Dtype (var_dtypes c)))
        = Inr (map (\<lambda>d. if numeric_dtype P (Dtype d) then FLOAT else CATEGORICAL)
                 (var_dtypes c))"
    unfolding get_feature_kind_def
    by (subst feature_kind_numeric_text) (simp_all add: comp_def)
  then show ?thesis
    by (simp add: panel_feature_kind_def df_list_dtypekind [OF assms(1,2)]
        pd_multiindex_dtypekind [OF assms(1)] nested_univ_dtypekind [OF assms(1,2)])
qed

theorem panel_representation_invariance_witness:
  "wf_content test_panel \<and> instances test_panel \<noteq> []
   \<and> numeric_dtype pandas_types (Dtype int64) \<and> text_dtype pandas_types (Dtype object_dtype)
   \<and> panel_feature_kind pandas_types (encode_df_list test_panel) (PyStr ''df-list'')
       = Inr [FLOAT, CATEGORICAL]
   \<and> panel_feature_kind pandas_types (encode_pd_multiindex test_panel) (PyStr ''pd-multiindex'')
       = Inr [FLOAT, CATEGORICAL]
   \<and> panel_feature_kind pandas_types (encode_nested_univ object_dtype test_panel)
         (PyStr ''nested_univ'')
       = Inr [FLOAT, CATEGORICAL]"
proof -
  have wf: "wf_content test_panel" by (simp add: wf_content_def test_panel_def)
  have ne: "instances test_panel \<noteq> []" by (simp add: test_panel_def)
  have num: "numeric_dtype pandas_types (Dtype int64)"
    by (simp add: numeric_dtype_def pandas_types_def)
  have is_text: "text_dtype pandas_types (Dtype object_dtype)"
    by (simp add: text_dtype_def numeric_dtype_def pandas_types_def)
  have nnum: "\<not> numeric_dtype pandas_types (Dtype object_dtype)"
    by (simp add: numeric_dtype_def pandas_types_def)
  have dts: "var_dtypes test_panel = [int64, object_dtype]" by (simp add: test_panel_def)
  have every: "\<forall>d \<in> set (var_dtypes test_panel).
               numeric_dtype pandas_types (Dtype d) \<or> text_dtype pandas_types (Dtype d)"
    using num is_text by (simp add: dts)
  show ?thesis
    using wf ne num is_text panel_representation_invariance [OF wf ne every, of object_dtype]
    by (simp add: dts nnum)
qed

text \<open>
  C4. On a sequence of DtypeKind members \_get\_feature\_kind always returns, and returns a
  sequence of the same length whose i-th element is CATEGORICAL when the i-th input is
  CATEGORICAL, STRING, BOOL or DATETIME and FLOAT when it is FLOAT, INT or UINT; every
  member is in one of the two groups. The result is a function of the input alone, so a
  repeated call returns the same.
\<close>

theorem get_feature_kind_total:
  "\<exists>fs. get_feature_kind (map Kind ks) = Inr fs \<and> length fs = length ks \<and>
     (\<forall>i < length ks.
        (ks ! i \<in> {CATEGORICAL, STRING, BOOL, DATETIME} \<longrightarrow> fs ! i = CATEGORICAL) \<and>
        (ks ! i \<in> {FLOAT, INT_kind, UINT} \<longrightarrow> fs ! i = FLOAT) \<and>
        (ks ! i \<in> {CATEGORICAL, STRING, BOOL, DATETIME} \<or> ks ! i \<in> {FLOAT, INT_kind, UINT}))"
proof -
  have "ks ! i \<in> {CATEGORICAL, STRING, BOOL, DATETIME} \<or> ks ! i \<in> {FLOAT, INT_kind, UINT}" for i
    by (cases "ks ! i") simp_all
  then show ?thesis
    by (auto simp: get_feature_kind_def feature_loop_Kinds)
qed

theorem get_feature_kind_total_witness:
  "get_feature_kind
     (map Kind [STRING, INT_kind, DATETIME, UINT, BOOL, FLOAT, CATEGORICAL] :: np_dtype entry list)
     = Inr [CATEGORICAL, FLOAT, CATEGORICAL, FLOAT, CATEGORICAL, FLOAT, CATEGORICAL]"
  using get_feature_kind_total [of "[STRING, INT_kind, DATETIME, UINT, BOOL, FLOAT, CATEGORICAL]"]
  by (simp add: get_feature_kind_def feature_kind_map_def)

text \<open>
  C5. \_pandas\_dtype\_to\_kind classifies every entry by the precedence list of the
  specification, first match wins: where the first predicate of the list that holds of the
  entry at position i stands for kind k, the list holds k at position i after the call.
\<close>

theorem first_match_wins:
  assumes "pandas_dtype_to_kind P h col_dtypes = (r, h')"
    and "i < length (h col_dtypes)"
    and "first_match (precedence P) (h col_dtypes ! i) = Some k"
  shows "h' r ! i = Kind k"
  using assms by (auto simp: pandas_dtype_to_kind_eq relabel_def)

text \<open>The object dtype is also a string dtype; it is classified CATEGORICAL, which comes first.\<close>

theorem first_match_wins_witness:
  "first_match (precedence pandas_types) (Dtype object_dtype) = Some CATEGORICAL
   \<and> is_string_dtype pandas_types (Dtype object_dtype)
   \<and> snd (pandas_dtype_to_kind pandas_types
            ((\<lambda>_. [])(0 := [Dtype float64, Dtype object_dtype])) 0) 0 ! 1
       = Kind CATEGORICAL"
proof -
  let ?h = "(\<lambda>_. [])(0 := [Dtype float64, Dtype object_dtype]) :: np_dtype heap"
  obtain r h' where run: "pandas_dtype_to_kind pandas_types ?h 0 = (r, h')"
    by (cases "pandas_dtype_to_kind pandas_types ?h 0")
  have r: "r = 0" using run by (simp add: pandas_dtype_to_kind_def)
  have len: "1 < length (?h 0)" by simp
  have fm: "first_match (precedence pandas_types) (?h 0 ! 1) = Some CATEGORICAL"
    by (simp add: precedence_def pandas_types_def)
  have "h' r ! 1 = Kind CATEGORICAL"
    using first_match_wins [OF run len fm] .
  with run r fm show ?thesis by (simp add: pandas_types_def)
qed

text \<open>
  C6. Whichever of the two checks runs first: when only the numbers of instances of X and
  y differ, \_check\_input raises the mismatch error; when X is only below the minimum, it
  raises the minimum error; when both hold it raises one of the two, the one checked
  first. A mismatch error is raised only when the numbers differ, a minimum error only
  when X is below the minimum, the call returns exactly when neither holds, and the two
  errors are different.
\<close>

theorem check_input_dimension_errors:
  "(n \<noteq> n_y \<and> \<not> int n < m \<longrightarrow>
      check_input minimum_first n (Some n_y) m = Inl (Mismatch_in_number_of_cases n n_y)) \<and>
   (int n < m \<and> (y = None \<or> y = Some n) \<longrightarrow>
      check_input minimum_first n y m = Inl (Minimum_number_of_cases_required m n)) \<and>
   (n \<noteq> n_y \<and> int n < m \<longrightarrow>
      check_input minimum_first n (Some n_y) m =
        (if minimum_first then Inl (Minimum_number_of_cases_required m n)
         else Inl (Mismatch_in_number_of_cases n n_y))) \<and>
   (check_input minimum_first n y m = Inl (Mismatch_in_number_of_cases a b) \<longrightarrow>
      a = n \<and> y = Some b \<and> n \<noteq> b) \<and>
   (check_input minimum_first n y m = Inl (Minimum_number_of_cases_required k a) \<longrightarrow>
      k = m \<and> a = n \<and> int n < m) \<and>
   (check_input minimum_first n y m = Inr () \<longleftrightarrow> \<not> int n < m \<and> (y = None \<or> y = Some n)) \<and>
   Mismatch_in_number_of_cases a b \<noteq> Minimum_number_of_cases_required k a"
  by (cases y) (auto simp: check_input_def check_minimum_def check_mismatch_def)

text \<open>The calls of the test: 3 instances against 5 labels, and 5 instances against a minimum of 6.\<close>

theorem check_input_dimension_errors_witness:
  "(3::nat) \<noteq> 5 \<and> \<not> int 3 < 1
   \<and> check_input True 3 (Some 5) 1 = Inl (Mismatch_in_number_of_cases 3 5)
   \<and> check_input False 3 (Some 5) 1 = Inl (Mismatch_in_number_of_cases 3 5)
   \<and> int 5 < 6
   \<and> check_input True 5 (Some 5) 6 = Inl (Minimum_number_of_cases_required 6 5)
   \<and> check_input False 5 (Some 5) 6 = Inl (Minimum_number_of_cases_required 6 5)
   \<and> check_input True 5 (Some 5) 1 = Inr ()"
  using check_input_dimension_errors [of 3 5 1 True "Some 5" 3 5 1]
    check_input_dimension_errors [of 3 5 1 False "Some 5" 3 5 1]
    check_input_dimension_errors [of 5 5 6 True "Some 5" 5 5 6]
    check_input_dimension_errors [of 5 5 6 False "Some 5" 5 5 6]
    check_input_dimension_errors [of 5 5 1 True "Some 5" 5 5 1]
  by simp

text \<open>
  C7. The enumeration DtypeKind has exactly the seven members INT, UINT, FLOAT, BOOL,
  STRING, DATETIME and CATEGORICAL, with the codes 0, 1, 2, 20, 21, 22 and 23: the class
  body yields these seven (name, code) pairs and no alias, the seven are all there is, and
  they are pairwise different.
\<close>

theorem DtypeKind_members_and_codes:
  "enum_members DtypeKind_body [] =
     map (\<lambda>k. (DtypeKind_name k, DtypeKind_value k)) all_DtypeKinds
   \<and> set all_DtypeKinds = UNIV \<and> distinct all_DtypeKinds \<and> length all_DtypeKinds = 7
   \<and> map DtypeKind_value all_DtypeKinds = [0, 1, 2, 20, 21, 22, 23]"
  by (simp add: DtypeKind_body_def all_DtypeKinds_def DtypeKind_UNIV)

text \<open>
  C8. Whatever the container: with a tag that is none of the three classes
  \_get\_series\_dtypekind compares with, and with a tag that is none of the five strings
  \_get\_panel\_dtypekind compares with, the call raises (the local col\_dtypes is read
  unbound, UnboundLocalError). It never returns a classification.
\<close>

theorem unknown_tag_raises:
  "(mtype \<notin> {np_ndarray, pd_Series, pd_DataFrame} \<longrightarrow>
      get_series_dtypekind P obj mtype = Inl UnboundLocalError) \<and>
   (mtype \<notin> {PyStr ''numpy3D'', PyStr ''numpyflat'', PyStr ''df-list'',
               PyStr ''pd-multiindex'', PyStr ''nested_univ''} \<longrightarrow>
      get_panel_dtypekind P obj mtype = Inl UnboundLocalError)"
  by (simp add: get_series_dtypekind_def get_panel_dtypekind_def)

theorem unknown_tag_raises_witness:
  "PyStr ''pd.DataFrame'' \<notin> {np_ndarray, pd_Series, pd_DataFrame}
   \<and> get_series_dtypekind pandas_types complex_frame (PyStr ''pd.DataFrame'')
       = Inl UnboundLocalError
   \<and> PyStr ''numpy2D'' \<notin> {PyStr ''numpy3D'', PyStr ''numpyflat'', PyStr ''df-list'',
               PyStr ''pd-multiindex'', PyStr ''nested_univ''}
   \<and> get_panel_dtypekind pandas_types complex_frame (PyStr ''numpy2D'') = Inl UnboundLocalError"
  using unknown_tag_raises [of "PyStr ''pd.DataFrame''" pandas_types complex_frame]
        unknown_tag_raises [of "PyStr ''numpy2D''" pandas_types complex_frame]
  by (simp add: np_ndarray_def pd_Series_def pd_DataFrame_def)

text \<open>
  C9. Every element of a sequence \_get\_feature\_kind returns is a member of DtypeKind:
  CATEGORICAL, with code 23, or FLOAT, with code 2. The result type is that of the
  enumeration itself.
\<close>

theorem feature_kind_is_DtypeKind:
  assumes "get_feature_kind es = Inr fs" and "f \<in> set fs"
  shows "(f = CATEGORICAL \<and> DtypeKind_value f = 23) \<or> (f = FLOAT \<and> DtypeKind_value f = 2)"
  using feature_loop_range [of es "[]" fs] assms by (auto simp: get_feature_kind_def)

theorem feature_kind_is_DtypeKind_witness:
  "get_feature_kind [Kind STRING, Kind UINT :: np_dtype entry] = Inr [CATEGORICAL, FLOAT]
   \<and> FLOAT \<in> set [CATEGORICAL, FLOAT]
   \<and> ((FLOAT = CATEGORICAL \<and> DtypeKind_value FLOAT = 23) \<or>
       (FLOAT = FLOAT \<and> DtypeKind_value FLOAT = 2))"
proof -
  have run: "get_feature_kind [Kind STRING, Kind UINT :: np_dtype entry]
             = Inr [CATEGORICAL, FLOAT]"
    by (simp add: get_feature_kind_def feature_kind_map_def)
  have mem: "FLOAT \<in> set [CATEGORICAL, FLOAT]" by simp
  show ?thesis using run mem feature_kind_is_DtypeKind [OF run mem] by simp
qed

text \<open>
  C10. \_pandas\_dtype\_to\_kind returns the reference it was given. The list behind it has
  kept its length; an entry that matches a predicate has been overwritten with the kind of
  its first match, an entry that matches none is what it was. No other list has changed.
\<close>

theorem in_place_same_list:
  assumes "pandas_dtype_to_kind P h col_dtypes = (r, h')"
  shows "r = col_dtypes \<and> length (h' col_dtypes) = length (h col_dtypes) \<and>
         (\<forall>i < length (h col_dtypes).
            (matches_none P (h col_dtypes ! i) \<longrightarrow> h' col_dtypes ! i = h col_dtypes ! i) \<and>
            (\<not> matches_none P (h col_dtypes ! i) \<longrightarrow>
               (\<exists>k. first_match (precedence P) (h col_dtypes ! i) = Some k \<and>
                    h' col_dtypes ! i = Kind k))) \<and>
         (\<forall>b. b \<noteq> col_dtypes \<longrightarrow> h' b = h b)"
proof -
  have h': "h' = h(col_dtypes := map (relabel P) (h col_dtypes))" and r: "r = col_dtypes"
    using assms by (auto simp: pandas_dtype_to_kind_eq)
  show ?thesis using h' r relabel_match [of P] by (simp add: relabel_matches_none)
qed

theorem in_place_same_list_witness:
  "pandas_dtype_to_kind pandas_types two_lists 0 =
     (0, two_lists(0 := [Kind INT_kind, Dtype complex128]))
   \<and> matches_none pandas_types (Dtype complex128)
   \<and> \<not> matches_none pandas_types (Dtype int64)
   \<and> (two_lists(0 := [Kind INT_kind, Dtype complex128])) 1 = [Dtype uint8]"
proof -
  obtain r h' where run: "pandas_dtype_to_kind pandas_types two_lists 0 = (r, h')"
    by (cases "pandas_dtype_to_kind pandas_types two_lists 0")
  note spec = in_place_same_list [OF run]
  have none: "matches_none pandas_types (Dtype complex128)"
    and some: "\<not> matches_none pandas_types (Dtype int64)"
    by (simp_all add: matches_none_def pandas_types_def)
  have fm: "first_match (precedence pandas_types) (Dtype int64) = Some INT_kind"
    by (simp add: precedence_def pandas_types_def)
  have l0: "two_lists 0 = [Dtype int64, Dtype complex128]" and l1: "two_lists 1 = [Dtype uint8]"
    by (simp_all add: two_lists_def)
  have len: "length (h' 0) = 2" using spec l0 by simp
  have e0: "h' 0 ! 0 = Kind INT_kind" using spec l0 some fm by auto
  have e1: "h' 0 ! 1 = Dtype complex128" using spec l0 none by auto
  have "h' 0 = [Kind INT_kind, Dtype complex128]"
    using len e0 e1 by (auto simp: list_eq_iff_nth_eq less_Suc_eq numeral_2_eq_2)
  moreover have "\<forall>b. b \<noteq> 0 \<longrightarrow> h' b = two_lists b" using spec by simp
  ultimately have "h' = two_lists(0 := [Kind INT_kind, Dtype complex128])"
    by (auto simp: fun_eq_iff)
  moreover have "r = 0" using spec by simp
  ultimately show ?thesis using run none some l1 by simp
qed

end
